theory Spec2Isabelle
  imports Main
begin

section \<open>gRPC instrumentation: the patching and span-lifecycle engine\<close>

text \<open>
  The development embeds \<^verbatim>\<open>GrpcNativeInstrumentation\<close>
  (\<^verbatim>\<open>opentelemetry-instrumentation-grpc/src/grpc/index.ts\<close>).
  JavaScript functions are HOL functions that take the world and return it updated;
  the calls made on the tracer API are recorded, in order, as events of the world.
  Calls of \<^verbatim>\<open>_diag.debug\<close> only log and are left out.
\<close>

subsection \<open>Values, spans and the tracer API\<close>

datatype val = Undefined | VBool bool | VNum int | VStr string

datatype span_kind = SERVER | CLIENT

datatype status_code = UNSET | OK | ERROR

datatype span_status = SpanStatus status_code "string option"

datatype attr_value = AStr string | AStrs "string list" | ANum int | AUndefined

text \<open>A metadata value is a string or an array of strings.\<close>

datatype md_value = Single string | Many "string list"

text \<open>
  The calls on the tracer collaborator. A span is named by its number: the span returned
  by the \<open>n\<close>-th \<^verbatim>\<open>startSpan\<close> (counting from 0) is span \<open>n\<close>. \<open>Invoked f\<close> records
  that the function numbered \<open>f\<close> of the application or of the library ran.
\<close>

datatype event =
    StartSpan string span_kind
  | SetAttributes nat "(string \<times> attr_value) list"
  | SetAttribute nat string attr_value
  | SetStatus nat span_status
  | EndSpan nat
  | Invoked nat

fun is_StartSpan :: "event \<Rightarrow> bool" where
  "is_StartSpan (StartSpan n k) = True"
| "is_StartSpan e = False"

definition spans_started :: "event list \<Rightarrow> nat" where
  "spans_started es = length (filter is_StartSpan es)"

definition times_ended :: "nat \<Rightarrow> event list \<Rightarrow> nat" where
  "times_ended s es = length (filter (\<lambda>e. e = EndSpan s) es)"

definition times_invoked :: "nat \<Rightarrow> event list \<Rightarrow> nat" where
  "times_invoked f es = length (filter (\<lambda>e. e = Invoked f) es)"

fun status_of :: "nat \<Rightarrow> event list \<Rightarrow> span_status option" where
  "status_of s [] = None"
| "status_of s (e # es) =
     (case status_of s es of
        Some st \<Rightarrow> Some st
      | None \<Rightarrow> (case e of SetStatus s' st \<Rightarrow> if s' = s then Some st else None | _ \<Rightarrow> None))"

subsection \<open>Configuration\<close>

text \<open>An ignore matcher is an exact string or a regular expression (its \<^verbatim>\<open>test\<close>).\<close>

datatype matcher = Exact string | Pattern "string \<Rightarrow> bool"

record md_lists =
  requestMetadata :: "string list option"
  responseMetadata :: "string list option"

record md_roles =
  cfg_client :: "md_lists option"
  cfg_server :: "md_lists option"

record config =
  ignoreGrpcMethods :: "matcher list option"
  metadataToSpanAttributes :: "md_roles option"

text \<open>
  A metadata capture closure holds nothing but its direction tag and its key list, so it
  is kept as that pair; \<open>run_capture\<close> below is its body.
\<close>

record capture_fn =
  cap_type :: string
  cap_keys :: "string list"

record capture_pair =
  captureRequestMetadata :: capture_fn
  captureResponseMetadata :: capture_fn

record metadataCaptureType =
  client :: capture_pair
  server :: capture_pair

subsection \<open>The world\<close>

text \<open>
  \<open>active\<close> is the ambient context (\<^verbatim>\<open>context.active()\<close>): the carrier a
  remote context was extracted from and the active span. \<open>the_config\<close> and
  \<open>the_metadataCapture\<close> are the fields of the instrumentation object, read at every
  call. \<open>listeners\<close> holds the completion listeners registered on streaming calls, as
  pairs of the call's number and the span they close over.
\<close>

type_synonym carrier = "(string \<times> md_value) list"

record ctx =
  remote :: "carrier option"
  ctx_span :: "nat option"

record world =
  events :: "event list"
  active :: ctx
  the_config :: config
  the_metadataCapture :: metadataCaptureType
  listeners :: "(nat \<times> nat) list"

definition emit :: "event \<Rightarrow> world \<Rightarrow> world" where
  "emit e w = w\<lparr>events := events w @ [e]\<rparr>"

definition startSpan :: "string \<Rightarrow> span_kind \<Rightarrow> world \<Rightarrow> nat \<times> world" where
  "startSpan name kind w = (spans_started (events w), emit (StartSpan name kind) w)"

definition setAttributes :: "nat \<Rightarrow> (string \<times> attr_value) list \<Rightarrow> world \<Rightarrow> world" where
  "setAttributes s kvs w = emit (SetAttributes s kvs) w"

definition setAttribute :: "nat \<Rightarrow> string \<Rightarrow> attr_value \<Rightarrow> world \<Rightarrow> world" where
  "setAttribute s k v w = emit (SetAttribute s k v) w"

definition setStatus :: "nat \<Rightarrow> span_status \<Rightarrow> world \<Rightarrow> world" where
  "setStatus s st w = emit (SetStatus s st) w"

definition span_end :: "nat \<Rightarrow> world \<Rightarrow> world" where
  "span_end s w = emit (EndSpan s) w"

text \<open>\<^verbatim>\<open>context.with(ctx, fn)\<close>: run \<open>fn\<close> with \<open>ctx\<close> active, then restore.\<close>

definition context_with :: "ctx \<Rightarrow> (world \<Rightarrow> 'a \<times> world) \<Rightarrow> world \<Rightarrow> 'a \<times> world" where
  "context_with c fn w =
     (let (r, w') = fn (w\<lparr>active := c\<rparr>) in (r, w'\<lparr>active := active w\<rparr>))"

text \<open>
  \<^verbatim>\<open>propagation.extract(ctx, carrier, getter)\<close> and \<^verbatim>\<open>trace.setSpan(ctx, span)\<close>
  of the API: the extracted context remembers the carrier it was read from.
\<close>

definition propagation_extract :: "ctx \<Rightarrow> carrier \<Rightarrow> ctx" where
  "propagation_extract c md = c\<lparr>remote := Some md\<rparr>"

definition setSpan :: "ctx \<Rightarrow> nat \<Rightarrow> ctx" where
  "setSpan c s = c\<lparr>ctx_span := Some s\<rparr>"

subsection \<open>Utilities\<close>

definition lower_char :: "char \<Rightarrow> char" where
  "lower_char c =
     (case map_of (zip ''ABCDEFGHIJKLMNOPQRSTUVWXYZ'' ''abcdefghijklmnopqrstuvwxyz'') c of
        None \<Rightarrow> c
      | Some l \<Rightarrow> l)"

definition toLowerCase :: "string \<Rightarrow> string" where
  "toLowerCase s = map lower_char s"

text \<open>\<^verbatim>\<open>s.replace('/', '')\<close> removes the first \<^verbatim>\<open>/\<close> of \<open>s\<close>.\<close>

definition replace_slash :: "string \<Rightarrow> string" where
  "replace_slash s = remove1 (CHR ''/'') s"

text \<open>Splitting at the last occurrence of a character; \<open>None\<close> when there is none.\<close>

definition split_last :: "char \<Rightarrow> string \<Rightarrow> (string \<times> string) option" where
  "split_last ch s =
     (let r = rev s;
          m = rev (takeWhile (\<lambda>c. c \<noteq> ch) r);
          b = dropWhile (\<lambda>c. c \<noteq> ch) r
      in case b of [] \<Rightarrow> None | _ # b' \<Rightarrow> Some (rev b', m))"

definition split_last_slash :: "string \<Rightarrow> (string \<times> string) option" where
  "split_last_slash s = split_last (CHR ''/'') s"

definition strip_leading_slash :: "string \<Rightarrow> string" where
  "strip_leading_slash s = (case s of [] \<Rightarrow> [] | c # t \<Rightarrow> if c = CHR ''/'' then t else s)"

text \<open>
  Modelled from the spec: \<^verbatim>\<open>_extractMethodAndService\<close> of \<^verbatim>\<open>../utils\<close>, which is
  not among the sources. The path has the shape \<^verbatim>\<open>/<service>/<method>\<close>; the split is
  on the last \<^verbatim>\<open>/\<close>, everything before it (without the leading \<^verbatim>\<open>/\<close>) is the
  service and the remainder is the method; an empty or undefined path gives
  \<^verbatim>\<open>undefined\<close> twice. The result is the pair (service, method). The spec is silent
  on a path without any \<^verbatim>\<open>/\<close> after the leading one: the model has no service
  there and the whole remainder as method.
\<close>

definition extractMethodAndService :: "string option \<Rightarrow> string option \<times> string option" where
  "extractMethodAndService path =
     (case path of
        None \<Rightarrow> (None, None)
      | Some p \<Rightarrow>
          if p = [] then (None, None)
          else (case split_last_slash (strip_leading_slash p) of
                  None \<Rightarrow> (None, Some (strip_leading_slash p))
                | Some (service, method) \<Rightarrow> (Some service, Some method)))"

text \<open>
  Modelled from the spec: \<^verbatim>\<open>_methodIsIgnored\<close> of \<^verbatim>\<open>../utils\<close>, which is not among
  the sources. A method is ignored if any matcher equals it exactly or matches it as a
  pattern; matching is case-sensitive; without a list nothing is ignored.
\<close>

fun satisfiesPattern :: "string \<Rightarrow> matcher \<Rightarrow> bool" where
  "satisfiesPattern methodName (Exact s) = (s = methodName)"
| "satisfiesPattern methodName (Pattern test) = test methodName"

definition methodIsIgnored :: "string \<Rightarrow> matcher list option \<Rightarrow> bool" where
  "methodIsIgnored methodName ignoredMethods =
     (case ignoredMethods of
        None \<Rightarrow> False
      | Some ms \<Rightarrow> list_ex (satisfiesPattern methodName) ms)"

text \<open>
  Metadata lookup is case-insensitive: \<^verbatim>\<open>Metadata.get\<close> normalises the key, and the
  carrier's own keys are compared in lower case.
\<close>

definition md_get :: "carrier \<Rightarrow> string \<Rightarrow> md_value option" where
  "md_get md key = map_of (map (\<lambda>(k, v). (toLowerCase k, v)) md) (toLowerCase key)"

fun attr_of_md :: "md_value \<Rightarrow> attr_value" where
  "attr_of_md (Single s) = AStr s"
| "attr_of_md (Many ss) = AStrs ss"

text \<open>
  Modelled from the spec: \<^verbatim>\<open>metadataCapture\<close> of \<^verbatim>\<open>../utils\<close>, which is not among
  the sources. It is built from a direction tag and an ordered key list and yields a
  function of a span and a carrier: for each configured key present in the carrier
  (case-insensitive lookup) it sets one attribute
  \<^verbatim>\<open>rpc.<direction>.metadata.<key>\<close>, key lower-cased, with the carrier's value as
  given; missing keys are skipped.
\<close>

definition metadataCapture :: "string \<Rightarrow> string list \<Rightarrow> capture_fn" where
  "metadataCapture type metadataToAdd = \<lparr>cap_type = type, cap_keys = metadataToAdd\<rparr>"

definition md_attr_name :: "string \<Rightarrow> string \<Rightarrow> string" where
  "md_attr_name type key = ''rpc.'' @ type @ ''.metadata.'' @ toLowerCase key"

definition capture_key :: "string \<Rightarrow> nat \<Rightarrow> carrier \<Rightarrow> string \<Rightarrow> world \<Rightarrow> world" where
  "capture_key type span md key w =
     (case md_get md key of
        None \<Rightarrow> w
      | Some v \<Rightarrow> setAttribute span (md_attr_name type key) (attr_of_md v) w)"

definition run_capture :: "capture_fn \<Rightarrow> nat \<Rightarrow> carrier \<Rightarrow> world \<Rightarrow> world" where
  "run_capture cap span md w = fold (capture_key (cap_type cap) span md) (cap_keys cap) w"

text \<open>\<^verbatim>\<open>_createMetadataCapture\<close> (index.ts, lines 377-402): \<^verbatim>\<open>?.\<close> and \<^verbatim>\<open>?? []\<close> written out.\<close>

definition keys_or_empty :: "md_lists option \<Rightarrow> (md_lists \<Rightarrow> string list option) \<Rightarrow> string list" where
  "keys_or_empty role field =
     (case role of None \<Rightarrow> [] | Some l \<Rightarrow> (case field l of None \<Rightarrow> [] | Some ks \<Rightarrow> ks))"

definition createMetadataCapture :: "config \<Rightarrow> metadataCaptureType" where
  "createMetadataCapture cfg =
     (let cl = (case metadataToSpanAttributes cfg of None \<Rightarrow> None | Some r \<Rightarrow> cfg_client r);
          sv = (case metadataToSpanAttributes cfg of None \<Rightarrow> None | Some r \<Rightarrow> cfg_server r)
      in \<lparr>client =
            \<lparr>captureRequestMetadata = metadataCapture ''request'' (keys_or_empty cl requestMetadata),
             captureResponseMetadata = metadataCapture ''response'' (keys_or_empty cl responseMetadata)\<rparr>,
          server =
            \<lparr>captureRequestMetadata = metadataCapture ''request'' (keys_or_empty sv requestMetadata),
             captureResponseMetadata = metadataCapture ''response'' (keys_or_empty sv responseMetadata)\<rparr>\<rparr>)"

text \<open>\<^verbatim>\<open>setConfig\<close> (index.ts, lines 117-120): the configuration is replaced whole.\<close>

definition setConfig :: "config \<Rightarrow> world \<Rightarrow> world" where
  "setConfig cfg w = w\<lparr>the_config := cfg, the_metadataCapture := createMetadataCapture cfg\<rparr>"


subsection \<open>Server calls\<close>

datatype grpc_error = ServiceError (err_name: string) (err_message: string)

text \<open>
  The call object handed to a server handler: its inbound metadata and its
  \<^verbatim>\<open>sendMetadata\<close> operation (absent on some calls). The unary callback takes the
  error and the response.
\<close>

record call =
  call_id :: nat
  metadata :: carrier
  sendMetadata :: "(carrier \<Rightarrow> world \<Rightarrow> val \<times> world) option"

type_synonym callback = "grpc_error option \<Rightarrow> val \<Rightarrow> world \<Rightarrow> val \<times> world"

type_synonym handler = "call \<Rightarrow> callback option \<Rightarrow> world \<Rightarrow> val \<times> world"

definition RPC_SYSTEM :: string where "RPC_SYSTEM = ''rpc.system''"
definition RPC_METHOD :: string where "RPC_METHOD = ''rpc.method''"
definition RPC_SERVICE :: string where "RPC_SERVICE = ''rpc.service''"
definition NET_PEER_NAME :: string where "NET_PEER_NAME = ''net.peer.name''"
definition NET_PEER_PORT :: string where "NET_PEER_PORT = ''net.peer.port''"
definition AttributeValues_RPC_SYSTEM :: string where "AttributeValues_RPC_SYSTEM = ''grpc''"

definition attr_of_opt :: "string option \<Rightarrow> attr_value" where
  "attr_of_opt x = (case x of None \<Rightarrow> AUndefined | Some s \<Rightarrow> AStr s)"

text \<open>
  Modelled from the spec: \<^verbatim>\<open>shouldNotTraceServerCall\<close> of \<^verbatim>\<open>./serverUtils\<close>, which
  is not among the sources. It consults the ignore-list filter with the method name
  derived from the registered name (what follows its last \<^verbatim>\<open>/\<close>; the name itself
  when that is empty), under the configuration current at the call.
\<close>

definition shouldNotTraceServerCall :: "world \<Rightarrow> call \<Rightarrow> string \<Rightarrow> bool" where
  "shouldNotTraceServerCall w c name =
     (let m = (case split_last_slash name of None \<Rightarrow> name | Some (b, m) \<Rightarrow> m)
      in methodIsIgnored (if m = [] then name else m) (ignoreGrpcMethods (the_config w)))"

text \<open>
  Modelled from the spec: \<^verbatim>\<open>clientStreamAndUnaryHandler\<close> of \<^verbatim>\<open>./serverUtils\<close>,
  which is not among the sources. The handler is invoked with the call and a wrapped
  callback; whichever of (error, response) the handler supplies, the wrapped callback
  sets the span status (an error gives the error status with the error's message,
  success the unset status), ends the span, and then invokes the original callback with
  the unmodified arguments. A call without a callback has nothing to wrap.
\<close>

definition patchedCallback :: "nat \<Rightarrow> callback \<Rightarrow> callback" where
  "patchedCallback span cb err v w =
     (let w1 = (case err of
                  Some e \<Rightarrow> setStatus span (SpanStatus ERROR (Some (err_message e))) w
                | None \<Rightarrow> setStatus span (SpanStatus UNSET None) w);
          w2 = span_end span w1
      in cb err v w2)"

definition clientStreamAndUnaryHandler ::
  "nat \<Rightarrow> call \<Rightarrow> callback option \<Rightarrow> handler \<Rightarrow> world \<Rightarrow> val \<times> world" where
  "clientStreamAndUnaryHandler span c cb original w =
     original c (map_option (patchedCallback span) cb) w"

text \<open>
  Modelled from the spec: \<^verbatim>\<open>serverStreamAndBidiHandler\<close> of \<^verbatim>\<open>./serverUtils\<close>,
  which is not among the sources. The handler is invoked with the call only; completion
  is observed through the call's events. The first terminal event (\<^verbatim>\<open>error\<close>, or
  \<^verbatim>\<open>finish\<close>/\<^verbatim>\<open>status\<close>) ends the span with the corresponding status; later
  terminal events are ignored; \<^verbatim>\<open>data\<close> events are not listened to. Whether the
  span has ended already is read off the events.
\<close>

datatype stream_event = Data val | Error grpc_error | Finish | Status

fun is_terminal :: "stream_event \<Rightarrow> bool" where
  "is_terminal (Data v) = False"
| "is_terminal e = True"

fun terminal_status :: "stream_event \<Rightarrow> span_status" where
  "terminal_status (Error e) = SpanStatus ERROR (Some (err_message e))"
| "terminal_status e = SpanStatus UNSET None"

definition on_stream_event :: "nat \<Rightarrow> stream_event \<Rightarrow> world \<Rightarrow> world" where
  "on_stream_event span ev w =
     (if is_terminal ev \<and> times_ended span (events w) = 0
      then span_end span (setStatus span (terminal_status ev) w)
      else w)"

definition serverStreamAndBidiHandler ::
  "nat \<Rightarrow> call \<Rightarrow> handler \<Rightarrow> world \<Rightarrow> val \<times> world" where
  "serverStreamAndBidiHandler span c original w =
     original c None (w\<lparr>listeners := listeners w @ [(call_id c, span)]\<rparr>)"

text \<open>The call \<open>cid\<close> emits an event: every listener registered on it runs, in order.\<close>

definition call_emit :: "nat \<Rightarrow> stream_event \<Rightarrow> world \<Rightarrow> world" where
  "call_emit cid ev w =
     fold (\<lambda>(c, span) w'. if c = cid then on_stream_event span ev w' else w') (listeners w) w"

text \<open>
  The wrapper installed on \<^verbatim>\<open>call.sendMetadata\<close> (index.ts, lines 234-241): an arrow
  function with a block body and no \<^verbatim>\<open>return\<close>.
\<close>

definition sendMetadata_patch ::
  "nat \<Rightarrow> (carrier \<Rightarrow> world \<Rightarrow> val \<times> world) \<Rightarrow> carrier \<Rightarrow> world \<Rightarrow> val \<times> world" where
  "sendMetadata_patch span originalSendMetadata responseMd w =
     (let w1 = run_capture (captureResponseMetadata (server (the_metadataCapture w)))
                 span responseMd w;
          (r, w2) = originalSendMetadata responseMd w1
      in (Undefined, w2))"

text \<open>
  \<^verbatim>\<open>_wrap(call, 'sendMetadata', wrapper)\<close>: shimmer replaces the property by
  \<^verbatim>\<open>wrapper(original)\<close>; when the property is missing it logs and changes nothing.
\<close>

definition wrap_sendMetadata ::
  "((carrier \<Rightarrow> world \<Rightarrow> val \<times> world) \<Rightarrow> carrier \<Rightarrow> world \<Rightarrow> val \<times> world) \<Rightarrow> call \<Rightarrow> call" where
  "wrap_sendMetadata wrapper c =
     (case sendMetadata c of
        None \<Rightarrow> c
      | Some original \<Rightarrow> c\<lparr>sendMetadata := Some (wrapper original)\<rparr>)"

text \<open>The traced branch of \<^verbatim>\<open>func\<close> (index.ts, lines 214-267).\<close>

definition func_traced ::
  "string \<Rightarrow> string \<Rightarrow> string \<Rightarrow> handler \<Rightarrow> call \<Rightarrow> callback option \<Rightarrow> world \<Rightarrow> val \<times> world" where
  "func_traced spanName name type originalFunc c cb w =
     (let (service, method) = extractMethodAndService (Some name);
          (span, w1) = startSpan spanName SERVER w;
          w2 = setAttributes span
                 [(RPC_SYSTEM, AStr AttributeValues_RPC_SYSTEM),
                  (RPC_METHOD, attr_of_opt method),
                  (RPC_SERVICE, attr_of_opt service)] w1;
          w3 = run_capture (captureRequestMetadata (server (the_metadataCapture w2)))
                 span (metadata c) w2;
          c' = wrap_sendMetadata (sendMetadata_patch span) c
      in context_with (setSpan (active w3) span)
           (\<lambda>w4. if type = ''unary'' \<or> type = ''client_stream''
                  then clientStreamAndUnaryHandler span c' cb originalFunc w4
                  else if type = ''server_stream'' \<or> type = ''bidi''
                  then serverStreamAndBidiHandler span c' originalFunc w4
                  else (Undefined, w4)) w3)"

text \<open>
  \<^verbatim>\<open>func\<close> (index.ts, lines 178-269), the wrapper of a registered handler. The
  traced branch does not return the result of \<^verbatim>\<open>context.with\<close>.
\<close>

definition func :: "string \<Rightarrow> string \<Rightarrow> val \<Rightarrow> handler \<Rightarrow> handler" where
  "func name type originalResult originalFunc c cb w =
     (if shouldNotTraceServerCall w c name then
        (if type = ''unary'' \<or> type = ''client_stream'' then originalFunc c cb w
         else if type = ''server_stream'' \<or> type = ''bidi'' then originalFunc c None w
         else (originalResult, w))
      else
        (let spanName = ''grpc.'' @ replace_slash name;
             (r, w') = context_with (propagation_extract (active w) (metadata c))
                         (func_traced spanName name type originalFunc c cb) w
         in (Undefined, w')))"

text \<open>
  The server object: its \<^verbatim>\<open>handlers\<close> map, keyed by name, each entry exposing
  \<^verbatim>\<open>func\<close> and the call type.
\<close>

record handlerSet =
  hs_func :: handler
  hs_type :: string

record grpc_server =
  handlers :: "string \<rightharpoonup> handlerSet"

type_synonym register_fn =
  "string \<Rightarrow> handler \<Rightarrow> string \<Rightarrow> grpc_server \<Rightarrow> world \<Rightarrow> val \<times> grpc_server \<times> world"

text \<open>
  \<^verbatim>\<open>register\<close> (index.ts, lines 163-274), the wrapper of \<^verbatim>\<open>Server.prototype.register\<close>;
  the arguments \<^verbatim>\<open>serialize\<close> and \<^verbatim>\<open>deserialize\<close> are only passed on and are
  left out. \<^verbatim>\<open>_wrap(handlerSet, 'func', ...)\<close> changes nothing when there is no entry.
\<close>

definition register :: "register_fn \<Rightarrow> register_fn" where
  "register originalRegister name h type this w =
     (let (originalResult, this1, w1) = originalRegister name h type this w
      in (originalResult,
          (case handlers this1 name of
             None \<Rightarrow> this1
           | Some handlerSet \<Rightarrow>
               this1\<lparr>handlers := (handlers this1)
                 (name \<mapsto> handlerSet\<lparr>hs_func := func name type originalResult (hs_func handlerSet)\<rparr>)\<rparr>),
          w1))"

subsection \<open>Client calls\<close>

text \<open>
  The arguments of a client method: the request, the optional metadata and the optional
  callback. The client object is read only for its channel's target. A client method is
  a function object carrying a \<^verbatim>\<open>path\<close>.
\<close>

record client_args =
  arg_request :: val
  arg_metadata :: "carrier option"
  arg_callback :: "callback option"

record grpc_client =
  channel_target :: string

record client_func =
  path :: "string option"
  cf_call :: "client_args \<Rightarrow> grpc_client \<Rightarrow> world \<Rightarrow> val \<times> world"

record client_ctor =
  prototype :: "string \<rightharpoonup> client_func"

type_synonym methods = "(string \<times> string option) list"

type_synonym factory_fn = "methods \<Rightarrow> string \<Rightarrow> world \<Rightarrow> client_ctor \<times> world"

text \<open>
  Modelled from the spec: \<^verbatim>\<open>getMetadata\<close> of \<^verbatim>\<open>./clientUtils\<close>, which is not among
  the sources. The metadata carrier the caller supplied among the arguments is reused;
  without one a new, empty carrier is built.
\<close>

definition getMetadata :: "client_func \<Rightarrow> client_args \<Rightarrow> carrier" where
  "getMetadata original args = (case arg_metadata args of None \<Rightarrow> [] | Some md \<Rightarrow> md)"

text \<open>
  Modelled from the spec: \<^verbatim>\<open>makeGrpcClientRemoteCall\<close> of \<^verbatim>\<open>./clientUtils\<close>, which
  is not among the sources. The delegate calls the original method with the original
  arguments, the metadata substituted, and ends the span on completion, mirroring the
  server side: a callback is wrapped to set the status and end the span before the
  caller's callback runs. Completion through the events of a returned stream is left
  to that stream and is not part of this model.
\<close>

definition makeGrpcClientRemoteCall ::
  "metadataCaptureType \<Rightarrow> client_func \<Rightarrow> client_args \<Rightarrow> carrier \<Rightarrow> grpc_client \<Rightarrow> nat
     \<Rightarrow> world \<Rightarrow> val \<times> world" where
  "makeGrpcClientRemoteCall mc original args md self span w =
     cf_call original
       (args\<lparr>arg_metadata := Some md,
             arg_callback := map_option (patchedCallback span) (arg_callback args)\<rparr>) self w"

text \<open>
  Modelled from the spec: \<^verbatim>\<open>URI_REGEX\<close> of \<^verbatim>\<open>../utils\<close>, which is not among the
  sources. The target is a URI-like string such as \<^verbatim>\<open>dns:host:port\<close>: the port is
  the run of digits after the last \<^verbatim>\<open>:\<close> and the name is what stands between it and
  the \<^verbatim>\<open>:\<close> before; anything else does not parse.
\<close>

definition digit_val :: "char \<Rightarrow> int option" where
  "digit_val c = map_of (zip ''0123456789'' [0, 1, 2, 3, 4, 5, 6, 7, 8, 9]) c"

definition parseInt :: "string \<Rightarrow> int" where
  "parseInt s = foldl (\<lambda>n c. 10 * n + (case digit_val c of None \<Rightarrow> 0 | Some d \<Rightarrow> d)) 0 s"

definition URI_REGEX_exec :: "string \<Rightarrow> (string \<times> string) option" where
  "URI_REGEX_exec target =
     (case split_last (CHR '':'') target of
        None \<Rightarrow> None
      | Some (before, port) \<Rightarrow>
          (let nm = (case split_last (CHR '':'') before of None \<Rightarrow> before | Some (b, n) \<Rightarrow> n)
           in if port \<noteq> [] \<and> list_all (\<lambda>c. digit_val c \<noteq> None) port \<and> nm \<noteq> []
              then Some (nm, port) else None))"

text \<open>\<^verbatim>\<open>clientMethodTrace\<close> (index.ts, lines 327-371).\<close>

definition clientMethodTrace ::
  "client_func \<Rightarrow> client_args \<Rightarrow> grpc_client \<Rightarrow> world \<Rightarrow> val \<times> world" where
  "clientMethodTrace original args this w =
     (let name = ''grpc.'' @ (case path original of None \<Rightarrow> ''undefined'' | Some p \<Rightarrow> replace_slash p);
          md = getMetadata original args;
          (service, method) = extractMethodAndService (path original);
          (span, w1) = startSpan name CLIENT w;
          w2 = setAttributes span
                 [(RPC_SYSTEM, AStr AttributeValues_RPC_SYSTEM),
                  (RPC_METHOD, attr_of_opt method),
                  (RPC_SERVICE, attr_of_opt service)] w1;
          w3 = (case URI_REGEX_exec (channel_target this) of
                  None \<Rightarrow> w2
                | Some (nm, port) \<Rightarrow>
                    setAttribute span NET_PEER_PORT (ANum (parseInt port))
                      (setAttribute span NET_PEER_NAME (AStr nm) w2));
          w4 = run_capture (captureRequestMetadata (client (the_metadataCapture w3))) span md w3
      in context_with (setSpan (active w4) span)
           (makeGrpcClientRemoteCall (the_metadataCapture w4) original args md this span) w4)"

text \<open>
  \<^verbatim>\<open>_getPatchedClientMethods\<close> (index.ts, lines 323-375): \<^verbatim>\<open>Object.assign\<close> copies
  the original's properties (its \<^verbatim>\<open>path\<close>) onto the tracing function.
\<close>

definition getPatchedClientMethods :: "client_func \<Rightarrow> client_func" where
  "getPatchedClientMethods original = original\<lparr>cf_call := clientMethodTrace original\<rparr>"

text \<open>
  \<^verbatim>\<open>_getMethodsToWrap\<close> (index.ts, lines 299-321); the method table is the list of
  its entries (name, \<^verbatim>\<open>originalName\<close>) in the order of \<^verbatim>\<open>Object.entries\<close>. An empty
  \<^verbatim>\<open>originalName\<close> is falsy.
\<close>

definition getMethodsToWrap :: "client_ctor \<Rightarrow> methods \<Rightarrow> world \<Rightarrow> string list" where
  "getMethodsToWrap cl ms w =
     concat (map (\<lambda>(name, originalName).
        if \<not> methodIsIgnored name (ignoreGrpcMethods (the_config w)) then
          name # (case originalName of
                    None \<Rightarrow> []
                  | Some on \<Rightarrow>
                      if on \<noteq> [] \<and> prototype cl on \<noteq> None \<and> name \<noteq> on then [on] else [])
        else []) ms)"

text \<open>
  \<^verbatim>\<open>_massWrap\<close> is shimmer's \<^verbatim>\<open>massWrap\<close>: each name in turn is wrapped; a name
  with no function under it is logged and skipped.
\<close>

definition massWrap ::
  "(string \<rightharpoonup> client_func) \<Rightarrow> string list \<Rightarrow> (client_func \<Rightarrow> client_func) \<Rightarrow> (string \<rightharpoonup> client_func)" where
  "massWrap nodule names wrapper =
     fold (\<lambda>n p. case p n of None \<Rightarrow> p | Some f \<Rightarrow> p(n \<mapsto> wrapper f)) names nodule"

text \<open>\<^verbatim>\<open>makeClientConstructor\<close> (index.ts, lines 282-295), the wrapper built by \<^verbatim>\<open>_patchClient\<close>.\<close>

definition makeClientConstructor :: "factory_fn \<Rightarrow> factory_fn" where
  "makeClientConstructor original ms serviceName w =
     (let (cl, w1) = original ms serviceName w
      in (cl\<lparr>prototype :=
               massWrap (prototype cl) (getMethodsToWrap cl ms w1) getPatchedClientMethods\<rparr>,
          w1))"

subsection \<open>Patching and unpatching the module\<close>

text \<open>
  The three patched properties: \<^verbatim>\<open>Server.prototype.register\<close> and
  \<^verbatim>\<open>makeGenericClientConstructor\<close> of the module's exports, and
  \<^verbatim>\<open>makeClientConstructor\<close> of the internal client file. A function object is a
  plain function, or one made by shimmer's \<^verbatim>\<open>wrap\<close>: that one has a number (its
  identity), its body, \<^verbatim>\<open>__original\<close>, and the property its \<^verbatim>\<open>__unwrap\<close> closes
  over; \<^verbatim>\<open>__wrapped\<close> is true on it.
\<close>

datatype jsfn = RegisterFn register_fn | FactoryFn factory_fn

datatype slot =
    Server_prototype_register
  | Exports_makeGenericClientConstructor
  | Internal_makeClientConstructor

datatype fnobj = Plain jsfn | Shimmed nat jsfn fnobj slot

record modules =
  slots :: "slot \<Rightarrow> fnobj option"
  next_uid :: nat

fun fn_body :: "fnobj \<Rightarrow> jsfn" where
  "fn_body (Plain b) = b"
| "fn_body (Shimmed u b orig home) = b"

text \<open>
  Calling a function object. Each property only ever holds functions of its own kind;
  a function of the other kind would be a type error and the model gives it no effect.
\<close>

definition run_register :: "fnobj \<Rightarrow> register_fn" where
  "run_register f =
     (case fn_body f of
        RegisterFn r \<Rightarrow> r
      | FactoryFn g \<Rightarrow> (\<lambda>name h type this w. (Undefined, this, w)))"

definition run_factory :: "fnobj \<Rightarrow> factory_fn" where
  "run_factory f =
     (case fn_body f of
        FactoryFn g \<Rightarrow> g
      | RegisterFn r \<Rightarrow> (\<lambda>ms serviceName w. (\<lparr>prototype = Map.empty\<rparr>, w)))"

text \<open>\<^verbatim>\<open>isWrapped\<close> of the instrumentation package: the three marks of shimmer are present.\<close>

fun isWrapped :: "fnobj option \<Rightarrow> bool" where
  "isWrapped (Some (Shimmed u b orig home)) = True"
| "isWrapped f = False"


text \<open>
  Modelled from the spec: \<^verbatim>\<open>_wrap\<close> and \<^verbatim>\<open>_unwrap\<close> of the instrumentation base
  class, which are shimmer's \<^verbatim>\<open>wrap\<close> and \<^verbatim>\<open>unwrap\<close> and are not among the sources.
  \<^verbatim>\<open>wrap\<close> replaces the property by \<^verbatim>\<open>wrapper(original)\<close>, marked; with no
  function under the property it logs and changes nothing. \<^verbatim>\<open>unwrap\<close> calls the
  \<^verbatim>\<open>__unwrap\<close> of the function under the property, which puts \<^verbatim>\<open>__original\<close> back
  where the wrapper was installed if the wrapper is still there; on a function that is
  not wrapped it is a no-op, never an error.
\<close>

definition wrap :: "slot \<Rightarrow> (fnobj \<Rightarrow> jsfn) \<Rightarrow> modules \<Rightarrow> modules" where
  "wrap sl wrapper m =
     (case slots m sl of
        None \<Rightarrow> m
      | Some original \<Rightarrow>
          m\<lparr>slots := (slots m)(sl \<mapsto> Shimmed (next_uid m) (wrapper original) original sl),
            next_uid := Suc (next_uid m)\<rparr>)"

definition unwrap :: "slot \<Rightarrow> modules \<Rightarrow> modules" where
  "unwrap sl m =
     (case slots m sl of
        None \<Rightarrow> m
      | Some (Plain b) \<Rightarrow> m
      | Some (Shimmed u b original home) \<Rightarrow>
          (case slots m home of
             Some (Shimmed u' b' original' home') \<Rightarrow>
               if u' = u then m\<lparr>slots := (slots m)(home \<mapsto> original)\<rparr> else m
           | _ \<Rightarrow> m))"

text \<open>\<^verbatim>\<open>_patchServer\<close> and \<^verbatim>\<open>_patchClient\<close> (index.ts, lines 158-297): the wrappers.\<close>

definition patchServer :: "fnobj \<Rightarrow> jsfn" where
  "patchServer originalRegister = RegisterFn (register (run_register originalRegister))"

definition patchClient :: "fnobj \<Rightarrow> jsfn" where
  "patchClient original = FactoryFn (makeClientConstructor (run_factory original))"

text \<open>
  The callbacks of \<^verbatim>\<open>init\<close> (index.ts, lines 79-107) and of \<^verbatim>\<open>_getInternalPatchs\<close>
  (lines 123-141). The unpatch callbacks return at once on undefined exports. The
  assignment to \<^verbatim>\<open>grpcClient\<close> only keeps the module at hand for \<^verbatim>\<open>getMetadata\<close>
  and is left out.
\<close>

definition patch :: "modules \<Rightarrow> modules" where
  "patch moduleExports =
     (let m1 = (if isWrapped (slots moduleExports Server_prototype_register)
                then unwrap Server_prototype_register moduleExports else moduleExports);
          m2 = wrap Server_prototype_register patchServer m1;
          m3 = (if isWrapped (slots m2 Exports_makeGenericClientConstructor)
                then unwrap Exports_makeGenericClientConstructor m2 else m2)
      in wrap Exports_makeGenericClientConstructor patchClient m3)"

definition unpatch :: "modules option \<Rightarrow> modules option" where
  "unpatch moduleExports =
     (case moduleExports of
        None \<Rightarrow> None
      | Some m \<Rightarrow> Some (unwrap Server_prototype_register m))"

definition onPatch :: "modules \<Rightarrow> modules" where
  "onPatch moduleExports =
     (let m1 = (if isWrapped (slots moduleExports Internal_makeClientConstructor)
                then unwrap Internal_makeClientConstructor moduleExports else moduleExports)
      in wrap Internal_makeClientConstructor patchClient m1)"

definition onUnPatch :: "modules option \<Rightarrow> modules option" where
  "onUnPatch moduleExports =
     (case moduleExports of
        None \<Rightarrow> None
      | Some m \<Rightarrow> Some (unwrap Internal_makeClientConstructor m))"

subsection \<open>Observations and stand-ins for the environment\<close>

text \<open>
  The constructor (index.ts, lines 65-72): the configuration is stored and the capture
  functions are built from it; nothing has happened yet.
\<close>

definition new_instrumentation :: "config \<Rightarrow> world" where
  "new_instrumentation cfg =
     \<lparr>events = [], active = \<lparr>remote = None, ctx_span = None\<rparr>, the_config = cfg,
      the_metadataCapture = createMetadataCapture cfg, listeners = []\<rparr>"

definition default_config :: config where
  "default_config = \<lparr>ignoreGrpcMethods = None, metadataToSpanAttributes = None\<rparr>"

text \<open>
  The world in which a traced server handler starts: the span has been started, its
  three attributes set, the request metadata captured, and the context carries the
  extracted remote context and the span.
\<close>

definition server_entry :: "string \<Rightarrow> call \<Rightarrow> world \<Rightarrow> world" where
  "server_entry name c w =
     (let s = spans_started (events w) in
      w\<lparr>events := events w @
          [StartSpan (''grpc.'' @ replace_slash name) SERVER,
           SetAttributes s
             [(RPC_SYSTEM, AStr AttributeValues_RPC_SYSTEM),
              (RPC_METHOD, attr_of_opt (snd (extractMethodAndService (Some name)))),
              (RPC_SERVICE, attr_of_opt (fst (extractMethodAndService (Some name))))]] @
          List.map_filter
            (\<lambda>k. map_option
                    (\<lambda>v. SetAttribute s
                           (md_attr_name
                              (cap_type (captureRequestMetadata (server (the_metadataCapture w)))) k)
                           (attr_of_md v))
                    (md_get (metadata c) k))
            (cap_keys (captureRequestMetadata (server (the_metadataCapture w)))),
        active := setSpan (propagation_extract (active w) (metadata c)) s\<rparr>)"

text \<open>
  The world in which the remote-call delegate of a traced client method starts: the
  span has been started, its attributes set (peer name and port when the target parses)
  and the request metadata captured.
\<close>

definition client_entry :: "client_func \<Rightarrow> client_args \<Rightarrow> grpc_client \<Rightarrow> world \<Rightarrow> world" where
  "client_entry original args this w =
     (let s = spans_started (events w);
          cap = captureRequestMetadata (client (the_metadataCapture w)) in
      w\<lparr>events := events w @
          [StartSpan (''grpc.'' @ (case path original of None \<Rightarrow> ''undefined'' | Some p \<Rightarrow> replace_slash p)) CLIENT,
           SetAttributes s
             [(RPC_SYSTEM, AStr AttributeValues_RPC_SYSTEM),
              (RPC_METHOD, attr_of_opt (snd (extractMethodAndService (path original)))),
              (RPC_SERVICE, attr_of_opt (fst (extractMethodAndService (path original))))]] @
          (case URI_REGEX_exec (channel_target this) of
             None \<Rightarrow> []
           | Some (nm, port) \<Rightarrow>
               [SetAttribute s NET_PEER_NAME (AStr nm),
                SetAttribute s NET_PEER_PORT (ANum (parseInt port))]) @
          List.map_filter
            (\<lambda>k. map_option (\<lambda>v. SetAttribute s (md_attr_name (cap_type cap) k) (attr_of_md v))
                    (md_get (getMetadata original args) k))
            (cap_keys cap),
        active := setSpan (active w) s\<rparr>)"

text \<open>
  The module as the library loads it, nothing patched yet; and a configuration that
  ignores exactly the given names.
\<close>

definition fresh_modules :: "register_fn \<Rightarrow> factory_fn \<Rightarrow> factory_fn \<Rightarrow> nat \<Rightarrow> modules" where
  "fresh_modules r g i u =
     \<lparr>slots = (\<lambda>sl. None)
        (Server_prototype_register \<mapsto> Plain (RegisterFn r),
         Exports_makeGenericClientConstructor \<mapsto> Plain (FactoryFn g),
         Internal_makeClientConstructor \<mapsto> Plain (FactoryFn i)),
      next_uid = u\<rparr>"

definition ignoring :: "string list \<Rightarrow> config" where
  "ignoring names = \<lparr>ignoreGrpcMethods = Some (map Exact names), metadataToSpanAttributes = None\<rparr>"









text \<open>
  Functions of the application and of the library, for the statements that count calls:
  each records that it ran and touches nothing else. \<open>failing_handler\<close> does some work
  of its own and then completes with an error.
\<close>

definition logging_handler :: "nat \<Rightarrow> val \<Rightarrow> handler" where
  "logging_handler n r c cb w = (r, emit (Invoked n) w)"

definition logging_callback :: "nat \<Rightarrow> callback" where
  "logging_callback n err v w = (Undefined, emit (Invoked n) w)"

definition failing_handler :: "grpc_error \<Rightarrow> val \<Rightarrow> (call \<Rightarrow> world \<Rightarrow> world) \<Rightarrow> handler" where
  "failing_handler e v pre c cb w =
     (case cb of None \<Rightarrow> (Undefined, pre c w) | Some k \<Rightarrow> k (Some e) v (pre c w))"

definition logging_sendMetadata :: "nat \<Rightarrow> val \<Rightarrow> carrier \<Rightarrow> world \<Rightarrow> val \<times> world" where
  "logging_sendMetadata n r md w = (r, emit (Invoked n) w)"

definition logging_method :: "nat \<Rightarrow> string \<Rightarrow> val \<Rightarrow> client_func" where
  "logging_method n p r = \<lparr>path = Some p, cf_call = (\<lambda>args this w. (r, emit (Invoked n) w))\<rparr>"


definition library_factory :: "nat \<Rightarrow> nat \<Rightarrow> factory_fn" where
  "library_factory n k ms serviceName w =
     (\<lparr>prototype = map_of (map (\<lambda>(name, on).
          (name, logging_method k (''/'' @ serviceName @ ''/'' @ name) Undefined)) ms)\<rparr>,
      emit (Invoked n) w)"

section \<open>Properties\<close>

subsection \<open>Helper lemmas\<close>

lemma split_last_slash_append:
  assumes "CHR ''/'' \<notin> set m"
  shows "split_last_slash (s @ CHR ''/'' # m) = Some (s, m)"
proof -
  have nm: "\<And>x. x \<in> set (rev m) \<Longrightarrow> x \<noteq> CHR ''/''"
    using assms by auto
  have t: "takeWhile (\<lambda>c. c \<noteq> CHR ''/'') (rev m @ CHR ''/'' # rev s) = rev m"
    by (subst takeWhile_append2 [OF nm]) simp_all
  have d: "dropWhile (\<lambda>c. c \<noteq> CHR ''/'') (rev m @ CHR ''/'' # rev s) = CHR ''/'' # rev s"
    by (subst dropWhile_append2 [OF nm]) simp_all
  show ?thesis
    by (simp add: split_last_slash_def split_last_def Let_def t d)
qed

lemma fold_capture_key:
  "fold (capture_key t s md) ks w =
     w\<lparr>events := events w @
        List.map_filter
          (\<lambda>k. map_option (\<lambda>v. SetAttribute s (md_attr_name t k) (attr_of_md v)) (md_get md k)) ks\<rparr>"
  by (induction ks arbitrary: w)
     (auto simp: capture_key_def setAttribute_def emit_def split: option.splits)

lemma spans_started_append [simp]:
  "spans_started (xs @ ys) = spans_started xs + spans_started ys"
  by (simp add: spans_started_def)

lemma times_ended_append [simp]:
  "times_ended s (xs @ ys) = times_ended s xs + times_ended s ys"
  by (simp add: times_ended_def)

lemma times_invoked_append [simp]:
  "times_invoked f (xs @ ys) = times_invoked f xs + times_invoked f ys"
  by (simp add: times_invoked_def)

lemma captured_no_span_events:
  "spans_started (List.map_filter
      (\<lambda>k. map_option (\<lambda>v. SetAttribute s (md_attr_name t k) (attr_of_md v)) (md_get md k)) ks) = 0
   \<and> times_ended s' (List.map_filter
      (\<lambda>k. map_option (\<lambda>v. SetAttribute s (md_attr_name t k) (attr_of_md v)) (md_get md k)) ks) = 0"
  by (induction ks) (auto simp: spans_started_def times_ended_def split: option.splits)

lemma captured_members:
  "SetAttribute s n v \<in> set (List.map_filter
      (\<lambda>k. map_option (\<lambda>v. SetAttribute s (md_attr_name t k) (attr_of_md v)) (md_get md k)) ks)
   \<longleftrightarrow> (\<exists>k v'. k \<in> set ks \<and> md_get md k = Some v' \<and> n = md_attr_name t k \<and> v = attr_of_md v')"
  by (induction ks) (auto split: option.splits)

lemma spans_started_simps [simp]:
  "spans_started [] = 0"
  "spans_started (e # es) = (if is_StartSpan e then 1 else 0) + spans_started es"
  by (simp_all add: spans_started_def)

lemma times_ended_simps [simp]:
  "times_ended s [] = 0"
  "times_ended s (e # es) = (if e = EndSpan s then 1 else 0) + times_ended s es"
  by (simp_all add: times_ended_def)

lemma times_invoked_simps [simp]:
  "times_invoked f [] = 0"
  "times_invoked f (e # es) = (if e = Invoked f then 1 else 0) + times_invoked f es"
  by (simp_all add: times_invoked_def)

lemma status_of_append_set [simp]:
  "status_of s (es @ [SetStatus s st]) = Some st"
  by (induction es) simp_all

lemma status_of_append_other [simp]:
  "(\<forall>st. e \<noteq> SetStatus s st) \<Longrightarrow> status_of s (es @ [e]) = status_of s es"
  by (induction es) (auto split: option.splits event.splits)

lemma server_entry_fields [simp]:
  "listeners (server_entry name c w) = listeners w"
  "the_config (server_entry name c w) = the_config w"
  "the_metadataCapture (server_entry name c w) = the_metadataCapture w"
  by (simp_all add: server_entry_def Let_def)

lemma wrap_sendMetadata_fields [simp]:
  "call_id (wrap_sendMetadata f c) = call_id c"
  "metadata (wrap_sendMetadata f c) = metadata c"
  "sendMetadata (wrap_sendMetadata f c) = map_option f (sendMetadata c)"
  by (simp_all add: wrap_sendMetadata_def split: option.splits)

lemma func_not_ignored:
  assumes "\<not> shouldNotTraceServerCall w c name"
  shows "func name type res h c cb w =
     (Undefined,
      (snd (if type = ''unary'' \<or> type = ''client_stream''
            then clientStreamAndUnaryHandler (spans_started (events w)) (wrap_sendMetadata (sendMetadata_patch (spans_started (events w))) c) cb h (server_entry name c w)
            else if type = ''server_stream'' \<or> type = ''bidi''
            then serverStreamAndBidiHandler (spans_started (events w)) (wrap_sendMetadata (sendMetadata_patch (spans_started (events w))) c) h (server_entry name c w)
            else (Undefined, server_entry name c w)))\<lparr>active := active w\<rparr>)"
  using assms
  by (simp add: func_def func_traced_def context_with_def startSpan_def setAttributes_def emit_def
        run_capture_def fold_capture_key server_entry_def Let_def split_beta)

lemma spans_started_server_entry:
  "spans_started (events (server_entry name c w)) = Suc (spans_started (events w))"
  by (simp add: server_entry_def Let_def captured_no_span_events)

lemma call_emit_filter:
  "fold (\<lambda>(c, sp) w'. if c = cid then on_stream_event sp ev w' else w') ls w
     = fold (\<lambda>(c, sp). on_stream_event sp ev) (filter (\<lambda>(c, sp). c = cid) ls) w"
  by (induction ls arbitrary: w) (auto split: prod.splits)

lemma call_emit_single:
  assumes "filter (\<lambda>(c, sp). c = cid) (listeners w) = [(cid, s)]"
  shows "call_emit cid ev w = on_stream_event s ev w"
  by (simp add: call_emit_def call_emit_filter assms)

lemma listeners_on_stream_event [simp]:
  "listeners (on_stream_event s ev w) = listeners w"
  by (simp add: on_stream_event_def span_end_def setStatus_def emit_def)

lemma on_stream_event_data [simp]: "on_stream_event s (Data v) w = w"
  by (simp add: on_stream_event_def)

lemma on_stream_event_ended:
  "0 < times_ended s (events w) \<Longrightarrow> on_stream_event s ev w = w"
  by (simp add: on_stream_event_def)

lemma on_stream_event_first:
  "is_terminal ev \<Longrightarrow> times_ended s (events w) = 0 \<Longrightarrow>
   on_stream_event s ev w = w\<lparr>events := events w @ [SetStatus s (terminal_status ev), EndSpan s]\<rparr>"
  by (simp add: on_stream_event_def span_end_def setStatus_def emit_def)

lemma stream_fold_ended:
  assumes "filter (\<lambda>(c, sp). c = cid) (listeners w) = [(cid, s)]" "0 < times_ended s (events w)"
  shows "fold (call_emit cid) evs w = w"
  using assms by (induction evs) (simp_all add: call_emit_single on_stream_event_ended)

lemma stream_fold:
  assumes "filter (\<lambda>(c, sp). c = cid) (listeners w) = [(cid, s)]" "times_ended s (events w) = 0"
  shows "fold (call_emit cid) evs w =
     (case find is_terminal evs of
        None \<Rightarrow> w
      | Some t \<Rightarrow> w\<lparr>events := events w @ [SetStatus s (terminal_status t), EndSpan s]\<rparr>)"
  using assms
proof (induction evs)
  case Nil
  then show ?case by simp
next
  case (Cons ev evs)
  show ?case
  proof (cases "is_terminal ev")
    case True
    let ?w = "w\<lparr>events := events w @ [SetStatus s (terminal_status ev), EndSpan s]\<rparr>"
    have "fold (call_emit cid) evs ?w = ?w"
      by (rule stream_fold_ended [where s = s]) (simp_all add: Cons.prems)
    with True Cons.prems show ?thesis
      by (simp add: call_emit_single on_stream_event_first)
  next
    case False
    then obtain v where "ev = Data v" by (cases ev) simp_all
    with Cons show ?thesis by (simp add: call_emit_single)
  qed
qed

lemma captured_no_invocations [simp]:
  "times_invoked n (List.map_filter
      (\<lambda>k. map_option (\<lambda>v. SetAttribute s (md_attr_name t k) (attr_of_md v)) (md_get md k)) ks) = 0"
  by (induction ks) (auto split: option.splits)

lemma run_capture_events:
  "run_capture cap s md w =
     w\<lparr>events := events w @
        List.map_filter
          (\<lambda>k. map_option (\<lambda>v. SetAttribute s (md_attr_name (cap_type cap) k) (attr_of_md v))
                  (md_get md k)) (cap_keys cap)\<rparr>"
  by (simp add: run_capture_def fold_capture_key)

lemma clientMethodTrace_run:
  "clientMethodTrace original args this w =
     (fst (cf_call original
             (args\<lparr>arg_metadata := Some (getMetadata original args),
                   arg_callback := map_option (patchedCallback (spans_started (events w))) (arg_callback args)\<rparr>)
             this (client_entry original args this w)),
      (snd (cf_call original
             (args\<lparr>arg_metadata := Some (getMetadata original args),
                   arg_callback := map_option (patchedCallback (spans_started (events w))) (arg_callback args)\<rparr>)
             this (client_entry original args this w)))\<lparr>active := active w\<rparr>)"
  by (simp add: clientMethodTrace_def context_with_def startSpan_def setAttributes_def
        setAttribute_def emit_def run_capture_events client_entry_def Let_def split_beta
        makeGrpcClientRemoteCall_def split: option.splits)

lemma spans_started_client_entry:
  "spans_started (events (client_entry original args this w)) = Suc (spans_started (events w))"
  by (simp add: client_entry_def Let_def captured_no_span_events split: option.splits)

lemma massWrap_count:
  "massWrap p names wr m = map_option (wr ^^ count_list names m) (p m)"
  unfolding massWrap_def
proof (induction names arbitrary: p)
  case Nil
  then show ?case by (simp add: option.map_ident)
next
  case (Cons n ns)
  show ?case
    by (cases "p n") (auto simp: Cons.IH funpow_swap1 option.map_comp o_def)
qed

lemma layers_spans:
  assumes "\<forall>args this w. spans_started (events (snd (cf_call o' args this w))) = spans_started (events w) + j"
  shows "spans_started (events (snd (cf_call ((getPatchedClientMethods ^^ k) o') args this w)))
           = spans_started (events w) + j + k"
proof (induction k arbitrary: args this w)
  case 0
  then show ?case using assms by simp
next
  case (Suc k)
  have call: "cf_call (getPatchedClientMethods x) = clientMethodTrace x" for x
    by (simp add: getPatchedClientMethods_def)
  show ?case
    by (simp add: call clientMethodTrace_run Suc.IH spans_started_client_entry)
qed


lemma getMethodsToWrap_single:
  "getMethodsToWrap cl [(m, None)] w =
     (if methodIsIgnored m (ignoreGrpcMethods (the_config w)) then [] else [m])"
  by (simp add: getMethodsToWrap_def)

lemma events_setConfig [simp]: "events (setConfig cfg w) = events w"
  by (simp add: setConfig_def)

lemma patch_fresh:
  "patch (fresh_modules r g i u) =
     \<lparr>slots = (\<lambda>sl. None)
        (Server_prototype_register \<mapsto>
           Shimmed u (RegisterFn (register r)) (Plain (RegisterFn r)) Server_prototype_register,
         Exports_makeGenericClientConstructor \<mapsto>
           Shimmed (Suc u) (FactoryFn (makeClientConstructor g)) (Plain (FactoryFn g))
             Exports_makeGenericClientConstructor,
         Internal_makeClientConstructor \<mapsto> Plain (FactoryFn i)),
      next_uid = Suc (Suc u)\<rparr>"
  by (simp add: patch_def fresh_modules_def wrap_def unwrap_def patchServer_def patchClient_def
        run_register_def run_factory_def fun_eq_iff Let_def)


lemma onPatch_fresh:
  "onPatch (fresh_modules r g i u) =
     \<lparr>slots = (\<lambda>sl. None)
        (Server_prototype_register \<mapsto> Plain (RegisterFn r),
         Exports_makeGenericClientConstructor \<mapsto> Plain (FactoryFn g),
         Internal_makeClientConstructor \<mapsto>
           Shimmed u (FactoryFn (makeClientConstructor i)) (Plain (FactoryFn i))
             Internal_makeClientConstructor),
      next_uid = Suc u\<rparr>"
  by (simp add: onPatch_def fresh_modules_def wrap_def unwrap_def patchClient_def
        run_factory_def fun_eq_iff Let_def)

lemma onPatch_onPatch_fresh:
  "onPatch (onPatch (fresh_modules r g i u)) =
     \<lparr>slots = (\<lambda>sl. None)
        (Server_prototype_register \<mapsto> Plain (RegisterFn r),
         Exports_makeGenericClientConstructor \<mapsto> Plain (FactoryFn g),
         Internal_makeClientConstructor \<mapsto>
           Shimmed (Suc u) (FactoryFn (makeClientConstructor i)) (Plain (FactoryFn i))
             Internal_makeClientConstructor),
      next_uid = Suc (Suc u)\<rparr>"
  unfolding onPatch_fresh
  by (simp add: onPatch_def wrap_def unwrap_def patchClient_def
        run_factory_def fun_eq_iff Let_def)

lemma times_invoked_server_entry [simp]:
  "times_invoked n (events (server_entry name c w)) = times_invoked n (events w)"
  by (simp add: server_entry_def Let_def)

lemma times_invoked_client_entry [simp]:
  "times_invoked n (events (client_entry original args this w)) = times_invoked n (events w)"
  by (simp add: client_entry_def Let_def split: option.splits)























text \<open>The unfoldings that evaluate a concrete run.\<close>

lemmas run_defs =
  Let_def shouldNotTraceServerCall_def new_instrumentation_def default_config_def
  methodIsIgnored_def split_last_slash_def split_last_def server_entry_def
  createMetadataCapture_def metadataCapture_def keys_or_empty_def emit_def replace_slash_def
  extractMethodAndService_def strip_leading_slash_def attr_of_opt_def
  RPC_SYSTEM_def RPC_METHOD_def RPC_SERVICE_def AttributeValues_RPC_SYSTEM_def
  NET_PEER_NAME_def NET_PEER_PORT_def
  logging_callback_def logging_handler_def logging_sendMetadata_def logging_method_def
  setStatus_def span_end_def setAttribute_def setAttributes_def startSpan_def
  md_get_def md_attr_name_def toLowerCase_def lower_char_def client_entry_def
  ignoring_def

subsection \<open>Method and service names\<close>

text \<open>
  C8. For every path \<^verbatim>\<open>/<service>/<method>\<close> (the method free of \<^verbatim>\<open>/\<close>, the service
  anything, dots included) the extractor splits on the last \<^verbatim>\<open>/\<close>: the service is
  what stands before it and the method is the remainder. For an undefined or empty path
  both are undefined, and the extractor is total, so there is no failure.
\<close>

theorem extractMethodAndService_path:
  "(CHR ''/'' \<notin> set method \<longrightarrow>
      extractMethodAndService (Some (CHR ''/'' # service @ CHR ''/'' # method))
        = (Some service, Some method))
   \<and> extractMethodAndService None = (None, None)
   \<and> extractMethodAndService (Some []) = (None, None)"
  by (simp add: extractMethodAndService_def strip_leading_slash_def split_last_slash_append)

theorem extractMethodAndService_path_witness:
  "CHR ''/'' \<notin> set ''Method'' \<and>
   extractMethodAndService (Some ''/pkg.Sub.Service/Method'')
     = (Some ''pkg.Sub.Service'', Some ''Method'')"
  using extractMethodAndService_path [of "''Method''" "''pkg.Sub.Service''"] by simp

subsection \<open>Metadata capture\<close>

text \<open>
  C9. For every key list and carrier, the capture function calls \<^verbatim>\<open>setAttribute\<close>
  once for each configured key present in the carrier (looked up without regard to
  case), under the name \<^verbatim>\<open>rpc.<direction>.metadata.<key>\<close> with the key in lower
  case and with the carrier's value as given, and does nothing else: configured keys
  that are absent and carrier keys that are not configured give no attribute, no span
  is started and none is ended.
\<close>

theorem metadataCapture_attributes:
  "(let w' = run_capture (metadataCapture type keys) span md w;
        new = List.map_filter
                (\<lambda>k. map_option (\<lambda>v. SetAttribute span (md_attr_name type k) (attr_of_md v))
                        (md_get md k)) keys
    in w' = w\<lparr>events := events w @ new\<rparr>
       \<and> spans_started (events w') = spans_started (events w)
       \<and> (\<forall>s. times_ended s (events w') = times_ended s (events w))
       \<and> (\<forall>n v. SetAttribute span n v \<in> set new \<longleftrightarrow>
            (\<exists>k v'. k \<in> set keys \<and> md_get md k = Some v'
               \<and> n = ''rpc.'' @ type @ ''.metadata.'' @ toLowerCase k \<and> v = attr_of_md v')))"
proof -
  have m: "\<And>n. n = md_attr_name type k \<longleftrightarrow> n = ''rpc.'' @ type @ ''.metadata.'' @ toLowerCase k"
    for k
    by (simp add: md_attr_name_def)
  show ?thesis
    unfolding Let_def run_capture_def metadataCapture_def
    by (simp only: fold_capture_key captured_members m [symmetric])
       (simp add: captured_no_span_events)
qed

theorem metadataCapture_attributes_witness:
  "events (run_capture (metadataCapture ''request'' [''a'', ''c'']) 0
             [(''a'', Single ''1''), (''b'', Single ''2'')]
             \<lparr>events = [], active = \<lparr>remote = None, ctx_span = None\<rparr>,
              the_config = \<lparr>ignoreGrpcMethods = None, metadataToSpanAttributes = None\<rparr>,
              the_metadataCapture = createMetadataCapture
                 \<lparr>ignoreGrpcMethods = None, metadataToSpanAttributes = None\<rparr>,
              listeners = []\<rparr>)
   = [SetAttribute 0 ''rpc.request.metadata.a'' (AStr ''1'')]"
  using metadataCapture_attributes [of "''request''" "[''a'', ''c'']" 0
          "[(''a'', Single ''1''), (''b'', Single ''2'')]"
          "\<lparr>events = [], active = \<lparr>remote = None, ctx_span = None\<rparr>,
              the_config = \<lparr>ignoreGrpcMethods = None, metadataToSpanAttributes = None\<rparr>,
              the_metadataCapture = createMetadataCapture
                 \<lparr>ignoreGrpcMethods = None, metadataToSpanAttributes = None\<rparr>,
              listeners = []\<rparr>"]
  by (simp add: Let_def md_get_def md_attr_name_def toLowerCase_def lower_char_def)

subsection \<open>Unary and client-streaming server calls\<close>

text \<open>
  C4. A unary or client-streaming call that is traced (the calls excluded by the ignore
  list are the subject of C5) and whose handler, after any work of its own, completes
  with an error: one span is started for the call before the handler runs;
  when the handler calls back, the span's status is set to the error status with the
  error's message and the span is ended, and only then the original callback runs, with
  the same error and response. Between the handler's work and the original callback
  exactly these two tracer calls happen.
\<close>

theorem unary_error_span:
  "(type = ''unary'' \<or> type = ''client_stream'') \<and> \<not> shouldNotTraceServerCall w c name \<longrightarrow>
   (let s = spans_started (events w);
        w1 = pre (wrap_sendMetadata (sendMetadata_patch s) c) (server_entry name c w);
        w2 = w1\<lparr>events := events w1 @
               [SetStatus s (SpanStatus ERROR (Some (err_message e))), EndSpan s]\<rparr>
    in func name type res (failing_handler e v pre) c (Some cb) w
         = (Undefined, (snd (cb (Some e) v w2))\<lparr>active := active w\<rparr>)
       \<and> spans_started (events (server_entry name c w)) = Suc (spans_started (events w))
       \<and> spans_started (events w2) = spans_started (events w1)
       \<and> times_ended s (events w2) = Suc (times_ended s (events w1))
       \<and> status_of s (events w2) = Some (SpanStatus ERROR (Some (err_message e))))"
proof (intro impI)
  assume a: "(type = ''unary'' \<or> type = ''client_stream'') \<and> \<not> shouldNotTraceServerCall w c name"
  have st: "status_of s (es @ [SetStatus s x, EndSpan s]) = Some x" for s es x
    using status_of_append_other [of "EndSpan s" s "es @ [SetStatus s x]"] by simp
  from a show "let s = spans_started (events w);
        w1 = pre (wrap_sendMetadata (sendMetadata_patch s) c) (server_entry name c w);
        w2 = w1\<lparr>events := events w1 @
               [SetStatus s (SpanStatus ERROR (Some (err_message e))), EndSpan s]\<rparr>
    in func name type res (failing_handler e v pre) c (Some cb) w
         = (Undefined, (snd (cb (Some e) v w2))\<lparr>active := active w\<rparr>)
       \<and> spans_started (events (server_entry name c w)) = Suc (spans_started (events w))
       \<and> spans_started (events w2) = spans_started (events w1)
       \<and> times_ended s (events w2) = Suc (times_ended s (events w1))
       \<and> status_of s (events w2) = Some (SpanStatus ERROR (Some (err_message e)))"
    by (auto simp: func_not_ignored spans_started_server_entry Let_def st
          clientStreamAndUnaryHandler_def failing_handler_def patchedCallback_def
          setStatus_def span_end_def emit_def)
qed


theorem unary_error_span_witness:
  "(''unary'' = ''unary'' \<or> ''unary'' = ''client_stream'')
   \<and> \<not> shouldNotTraceServerCall (new_instrumentation default_config)
         \<lparr>call_id = 0, metadata = [], sendMetadata = None\<rparr> ''/pkg.Service/Method''
   \<and> events (snd (func ''/pkg.Service/Method'' ''unary'' (VBool True)
         (failing_handler (ServiceError ''Error'' ''boom'') Undefined (\<lambda>c w. w))
         \<lparr>call_id = 0, metadata = [], sendMetadata = None\<rparr>
         (Some (logging_callback 7)) (new_instrumentation default_config)))
     = [StartSpan ''grpc.pkg.Service/Method'' SERVER,
        SetAttributes 0 [(''rpc.system'', AStr ''grpc''), (''rpc.method'', AStr ''Method''),
                         (''rpc.service'', AStr ''pkg.Service'')],
        SetStatus 0 (SpanStatus ERROR (Some ''boom'')), EndSpan 0, Invoked 7]"
  using unary_error_span [of "''unary''" "new_instrumentation default_config"
      "\<lparr>call_id = 0, metadata = [], sendMetadata = None\<rparr>" "''/pkg.Service/Method''"
      "\<lambda>c w. w" "ServiceError ''Error'' ''boom''" "VBool True" Undefined "logging_callback 7"]
  by (simp add: run_defs)

subsection \<open>Server-streaming and bidirectional calls\<close>

text \<open>
  C3. A traced server-streaming or bidirectional call starts one span before the handler
  runs and registers its completion listener on the call. From any later world in which
  that listener is the call's only one and the span is still open, delivering any
  sequence of events changes the world only by the status and the end of the span, once,
  for the first terminal event of the sequence; data events and every later terminal
  event change nothing, and no span is started.
\<close>

theorem stream_span_once:
  "(type = ''server_stream'' \<or> type = ''bidi'') \<and> \<not> shouldNotTraceServerCall w c name \<longrightarrow>
   (let s = spans_started (events w);
        w1 = (server_entry name c w)\<lparr>listeners := listeners w @ [(call_id c, s)]\<rparr>
    in func name type res h c cb w
         = (Undefined,
            (snd (h (wrap_sendMetadata (sendMetadata_patch s) c) None w1))\<lparr>active := active w\<rparr>)
       \<and> spans_started (events w1) = Suc (spans_started (events w))
       \<and> (\<forall>w' evs.
            filter (\<lambda>(c', sp). c' = call_id c) (listeners w') = [(call_id c, s)]
            \<and> times_ended s (events w') = 0 \<longrightarrow>
            fold (call_emit (call_id c)) evs w' =
              (case find is_terminal evs of
                 None \<Rightarrow> w'
               | Some t \<Rightarrow> w'\<lparr>events := events w' @ [SetStatus s (terminal_status t), EndSpan s]\<rparr>)))"
proof (intro impI)
  assume a: "(type = ''server_stream'' \<or> type = ''bidi'') \<and> \<not> shouldNotTraceServerCall w c name"
  then have ty: "\<not> (type = ''unary'' \<or> type = ''client_stream'')"
    by auto
  have run: "func name type res h c cb w
         = (Undefined,
            (snd (h (wrap_sendMetadata (sendMetadata_patch (spans_started (events w))) c) None
                ((server_entry name c w)\<lparr>listeners := listeners w @ [(call_id c, spans_started (events w))]\<rparr>)))
              \<lparr>active := active w\<rparr>)"
    using a ty by (simp add: func_not_ignored serverStreamAndBidiHandler_def)
  show "let s = spans_started (events w);
        w1 = (server_entry name c w)\<lparr>listeners := listeners w @ [(call_id c, s)]\<rparr>
    in func name type res h c cb w
         = (Undefined,
            (snd (h (wrap_sendMetadata (sendMetadata_patch s) c) None w1))\<lparr>active := active w\<rparr>)
       \<and> spans_started (events w1) = Suc (spans_started (events w))
       \<and> (\<forall>w' evs.
            filter (\<lambda>(c', sp). c' = call_id c) (listeners w') = [(call_id c, s)]
            \<and> times_ended s (events w') = 0 \<longrightarrow>
            fold (call_emit (call_id c)) evs w' =
              (case find is_terminal evs of
                 None \<Rightarrow> w'
               | Some t \<Rightarrow> w'\<lparr>events := events w' @ [SetStatus s (terminal_status t), EndSpan s]\<rparr>))"
    unfolding Let_def
    by (intro conjI allI impI) (simp_all add: run spans_started_server_entry stream_fold)
qed


theorem stream_span_once_witness:
  "(''bidi'' = ''server_stream'' \<or> ''bidi'' = ''bidi'')
   \<and> \<not> shouldNotTraceServerCall (new_instrumentation default_config)
         \<lparr>call_id = 5, metadata = [], sendMetadata = None\<rparr> ''/pkg.Service/Chat''
   \<and> events (fold (call_emit 5)
        [Data (VNum 1), Data (VNum 2), Error (ServiceError ''Error'' ''boom''), Finish, Status,
         Error (ServiceError ''Error'' ''late'')]
        (snd (func ''/pkg.Service/Chat'' ''bidi'' (VBool True) (logging_handler 3 Undefined)
           \<lparr>call_id = 5, metadata = [], sendMetadata = None\<rparr> None
           (new_instrumentation default_config))))
     = [StartSpan ''grpc.pkg.Service/Chat'' SERVER,
        SetAttributes 0 [(''rpc.system'', AStr ''grpc''), (''rpc.method'', AStr ''Chat''),
                         (''rpc.service'', AStr ''pkg.Service'')],
        Invoked 3,
        SetStatus 0 (SpanStatus ERROR (Some ''boom'')), EndSpan 0]"
proof -
  let ?w = "new_instrumentation default_config"
  let ?c = "\<lparr>call_id = 5, metadata = [], sendMetadata = None\<rparr>"
  have hyp: "(''bidi'' = ''server_stream'' \<or> ''bidi'' = ''bidi'')
      \<and> \<not> shouldNotTraceServerCall ?w ?c ''/pkg.Service/Chat''"
    by (simp add: run_defs)
  note t = stream_span_once [of "''bidi''" ?w ?c "''/pkg.Service/Chat''" "VBool True"
      "logging_handler 3 Undefined" None, unfolded Let_def, THEN mp, OF hyp]
  have run: "snd (func ''/pkg.Service/Chat'' ''bidi'' (VBool True) (logging_handler 3 Undefined) ?c None ?w)
     = \<lparr>events = [StartSpan ''grpc.pkg.Service/Chat'' SERVER,
        SetAttributes 0 [(''rpc.system'', AStr ''grpc''), (''rpc.method'', AStr ''Chat''),
                         (''rpc.service'', AStr ''pkg.Service'')],
        Invoked 3], active = \<lparr>remote = None, ctx_span = None\<rparr>, the_config = default_config,
        the_metadataCapture = createMetadataCapture default_config, listeners = [(5, 0)]\<rparr>"
    using t [THEN conjunct1] by (simp add: run_defs)
  let ?R = "snd (func ''/pkg.Service/Chat'' ''bidi'' (VBool True) (logging_handler 3 Undefined) ?c None ?w)"
  have pre: "filter (\<lambda>(c', sp). c' = call_id ?c) (listeners ?R)
        = [(call_id ?c, spans_started (events ?w))]
      \<and> times_ended (spans_started (events ?w)) (events ?R) = 0"
    by (simp add: run) (simp add: run_defs)
  note t3 = t [THEN conjunct2, THEN conjunct2, THEN spec, THEN spec, THEN mp, OF pre]
  show ?thesis
    using hyp t3 [of "[Data (VNum 1), Data (VNum 2), Error (ServiceError ''Error'' ''boom''), Finish, Status,
         Error (ServiceError ''Error'' ''late'')]"]
    by (simp add: run) (simp add: run_defs)
qed

subsection \<open>The wrapper of sendMetadata\<close>

text \<open>
  C7, as stated, fails: the wrapper has no \<^verbatim>\<open>return\<close>, so an original that returns a
  value has it replaced by \<^verbatim>\<open>undefined\<close>.
\<close>

theorem sendMetadata_return_counterexample:
  "\<not> (fst (sendMetadata_patch 0 (logging_sendMetadata 4 (VNum 1)) []
             (new_instrumentation default_config))
        = fst (logging_sendMetadata 4 (VNum 1) [] (new_instrumentation default_config)))"
  by (simp add: sendMetadata_patch_def split_beta logging_sendMetadata_def)

text \<open>
  C7, amended. The handler's call object carries one wrapper around its
  \<^verbatim>\<open>sendMetadata\<close>. Every invocation of the wrapper captures the response metadata
  on the span and then runs the original, once, on the same metadata, in the world the
  capture left; the wrapper itself returns \<^verbatim>\<open>undefined\<close>, which is the original's
  result whenever the original returns nothing, as its type \<^verbatim>\<open>void\<close> says.
\<close>

theorem sendMetadata_wrapper:
  "sendMetadata (wrap_sendMetadata (sendMetadata_patch s) c)
     = map_option (sendMetadata_patch s) (sendMetadata c)
   \<and> sendMetadata_patch s original md w =
       (Undefined,
        snd (original md
               (run_capture (captureResponseMetadata (server (the_metadataCapture w))) s md w)))
   \<and> times_invoked n (events (snd (sendMetadata_patch s (logging_sendMetadata n r) md w)))
       = Suc (times_invoked n (events w))"
  by (simp add: sendMetadata_patch_def split_beta logging_sendMetadata_def emit_def
        run_capture_events)

theorem sendMetadata_wrapper_witness:
  "sendMetadata_patch 0 (logging_sendMetadata 4 Undefined) [(''Trailer-Key'', Single ''v'')]
     (setConfig \<lparr>ignoreGrpcMethods = None,
                 metadataToSpanAttributes = Some \<lparr>cfg_client = None,
                   cfg_server = Some \<lparr>requestMetadata = None,
                                        responseMetadata = Some [''trailer-key'']\<rparr>\<rparr>\<rparr>
        (new_instrumentation default_config))
   = (Undefined,
      (setConfig \<lparr>ignoreGrpcMethods = None,
                 metadataToSpanAttributes = Some \<lparr>cfg_client = None,
                   cfg_server = Some \<lparr>requestMetadata = None,
                                        responseMetadata = Some [''trailer-key'']\<rparr>\<rparr>\<rparr>
        (new_instrumentation default_config))
      \<lparr>events := [SetAttribute 0 ''rpc.response.metadata.trailer-key'' (AStr ''v''), Invoked 4]\<rparr>)"
  using sendMetadata_wrapper [of 0 "\<lparr>call_id = 0, metadata = [], sendMetadata = None\<rparr>"
      "logging_sendMetadata 4 Undefined" "[(''Trailer-Key'', Single ''v'')]"
      "setConfig \<lparr>ignoreGrpcMethods = None,
                 metadataToSpanAttributes = Some \<lparr>cfg_client = None,
                   cfg_server = Some \<lparr>requestMetadata = None,
                                        responseMetadata = Some [''trailer-key'']\<rparr>\<rparr>\<rparr>
        (new_instrumentation default_config)" 4 Undefined]
  by (simp add: run_defs setConfig_def run_capture_events)

subsection \<open>Server calls of an unknown type\<close>

text \<open>
  C6, as stated, fails: for a call that is not excluded from tracing the span is started
  before the type is looked at, and the wrapper returns \<^verbatim>\<open>undefined\<close>, not the
  result of the original registration.
\<close>

theorem unknown_type_counterexample:
  "\<not> (spans_started (events (snd (func ''/pkg.Service/Method'' ''other'' (VBool True)
            (logging_handler 3 Undefined)
            \<lparr>call_id = 0, metadata = [], sendMetadata = None\<rparr> None
            (new_instrumentation default_config))))
        = spans_started (events (new_instrumentation default_config))
      \<and> fst (func ''/pkg.Service/Method'' ''other'' (VBool True)
            (logging_handler 3 Undefined)
            \<lparr>call_id = 0, metadata = [], sendMetadata = None\<rparr> None
            (new_instrumentation default_config)) = VBool True)"
proof -
  have ni: "\<not> shouldNotTraceServerCall (new_instrumentation default_config)
        \<lparr>call_id = 0, metadata = [], sendMetadata = None\<rparr> ''/pkg.Service/Method''"
    by (simp add: run_defs)
  show ?thesis
    by (simp add: func_not_ignored [OF ni])
qed

text \<open>
  C6, amended. For a registered type that is none of \<^verbatim>\<open>unary\<close>,
  \<^verbatim>\<open>client_stream\<close>, \<^verbatim>\<open>server_stream\<close>, \<^verbatim>\<open>bidi\<close>: when the call is excluded
  from tracing, the wrapped handler performs no tracing action, leaves the world as it
  is and returns what the original registration returned; and in every case the original
  handler is not invoked (the outcome does not depend on it).
\<close>

theorem unknown_type_no_handler:
  "type \<noteq> ''unary'' \<and> type \<noteq> ''client_stream'' \<and> type \<noteq> ''server_stream'' \<and> type \<noteq> ''bidi''
   \<longrightarrow>
   (shouldNotTraceServerCall w c name \<longrightarrow> func name type res h c cb w = (res, w))
   \<and> func name type res h c cb w = func name type res h' c cb w"
  by (simp add: func_def func_traced_def split_beta Let_def context_with_def)

theorem unknown_type_no_handler_witness:
  "''other'' \<noteq> ''unary'' \<and> ''other'' \<noteq> ''client_stream'' \<and> ''other'' \<noteq> ''server_stream''
   \<and> ''other'' \<noteq> ''bidi''
   \<and> shouldNotTraceServerCall
        (new_instrumentation \<lparr>ignoreGrpcMethods = Some [Exact ''Method''], metadataToSpanAttributes = None\<rparr>)
        \<lparr>call_id = 0, metadata = [], sendMetadata = None\<rparr> ''/pkg.Service/Method''
   \<and> func ''/pkg.Service/Method'' ''other'' (VBool True) (logging_handler 3 Undefined)
        \<lparr>call_id = 0, metadata = [], sendMetadata = None\<rparr> None
        (new_instrumentation \<lparr>ignoreGrpcMethods = Some [Exact ''Method''], metadataToSpanAttributes = None\<rparr>)
      = (VBool True,
         new_instrumentation \<lparr>ignoreGrpcMethods = Some [Exact ''Method''], metadataToSpanAttributes = None\<rparr>)"
  using unknown_type_no_handler [of "''other''"
      "new_instrumentation \<lparr>ignoreGrpcMethods = Some [Exact ''Method''], metadataToSpanAttributes = None\<rparr>"
      "\<lparr>call_id = 0, metadata = [], sendMetadata = None\<rparr>" "''/pkg.Service/Method''"
      "VBool True" "logging_handler 3 Undefined" None "logging_handler 3 Undefined"]
  by (simp add: run_defs)


subsection \<open>Ignored methods\<close>

text \<open>
  C5, as stated, fails twice. On the server, an excluded call of a type outside the four
  shapes returns the registration's result without invoking the handler. On the client,
  the tracing function makes no check of its own: a method that the current
  configuration ignores still starts a span when the client constructor was generated
  before the configuration changed.
\<close>

theorem ignored_methods_counterexample:
  "shouldNotTraceServerCall (new_instrumentation (ignoring [''Method'']))
        \<lparr>call_id = 0, metadata = [], sendMetadata = None\<rparr> ''/pkg.Service/Method''
   \<and> func ''/pkg.Service/Method'' ''other'' (VBool True) (logging_handler 3 (VNum 1))
        \<lparr>call_id = 0, metadata = [], sendMetadata = None\<rparr> None
        (new_instrumentation (ignoring [''Method'']))
      \<noteq> logging_handler 3 (VNum 1) \<lparr>call_id = 0, metadata = [], sendMetadata = None\<rparr> None
          (new_instrumentation (ignoring [''Method'']))
   \<and> methodIsIgnored ''unaryMethod''
        (ignoreGrpcMethods (the_config (setConfig (ignoring [''unaryMethod''])
           (snd (makeClientConstructor (library_factory 1 2) [(''unaryMethod'', None)] ''Svc''
                  (new_instrumentation default_config))))))
   \<and> map_option (\<lambda>f. events (snd (cf_call f
          \<lparr>arg_request = VStr ''req'', arg_metadata = None, arg_callback = None\<rparr>
          \<lparr>channel_target = ''localhost''\<rparr>
          (setConfig (ignoring [''unaryMethod''])
             (snd (makeClientConstructor (library_factory 1 2) [(''unaryMethod'', None)] ''Svc''
                    (new_instrumentation default_config)))))))
        (prototype (fst (makeClientConstructor (library_factory 1 2) [(''unaryMethod'', None)] ''Svc''
                    (new_instrumentation default_config))) ''unaryMethod'')
      = Some [Invoked 1, StartSpan ''grpc.Svc/unaryMethod'' CLIENT,
              SetAttributes 0 [(''rpc.system'', AStr ''grpc''), (''rpc.method'', AStr ''unaryMethod''),
                               (''rpc.service'', AStr ''Svc'')],
              Invoked 2]"
proof -
  have gen: "makeClientConstructor (library_factory 1 2) [(''unaryMethod'', None)] ''Svc''
                  (new_instrumentation default_config)
      = (\<lparr>prototype = map_of
            [(''unaryMethod'', getPatchedClientMethods (logging_method 2 ''/Svc/unaryMethod'' Undefined))]\<rparr>,
         emit (Invoked 1) (new_instrumentation default_config))"
    by (simp add: makeClientConstructor_def library_factory_def getMethodsToWrap_def massWrap_def
        methodIsIgnored_def new_instrumentation_def default_config_def emit_def fun_eq_iff)
  show ?thesis
    unfolding gen
    by (simp add: getPatchedClientMethods_def clientMethodTrace_run func_def)
       (simp add: run_defs setConfig_def ignoring_def getMetadata_def
          URI_REGEX_exec_def digit_val_def parseInt_def)
qed


text \<open>
  C5, amended. On the server, for a call excluded from tracing and registered with one
  of the four shapes, the wrapped handler is the original handler: it gets the call (and
  the callback for \<^verbatim>\<open>unary\<close> and \<^verbatim>\<open>client_stream\<close>, the call alone for
  \<^verbatim>\<open>server_stream\<close> and \<^verbatim>\<open>bidi\<close>) in the unchanged world, and its result and
  effects are passed through; nothing is traced. On the client the ignore list is
  consulted when the constructor is generated, against each key of the method table: an
  ignored entry adds nothing to the list of methods to wrap, and a method that is not in
  that list keeps its original function.
\<close>

theorem ignored_methods_pass_through:
  "(shouldNotTraceServerCall w c name
      \<and> (type = ''unary'' \<or> type = ''client_stream'' \<or> type = ''server_stream'' \<or> type = ''bidi'')
      \<longrightarrow> func name type res h c cb w
            = h c (if type = ''unary'' \<or> type = ''client_stream'' then cb else None) w)
   \<and> (methodIsIgnored key (ignoreGrpcMethods (the_config wg))
      \<longrightarrow> getMethodsToWrap cl (ms1 @ (key, on) # ms2) wg = getMethodsToWrap cl (ms1 @ ms2) wg)
   \<and> (original ms serviceName wg = (cl, wg1) \<and> m \<notin> set (getMethodsToWrap cl ms wg1)
      \<longrightarrow> prototype (fst (makeClientConstructor original ms serviceName wg)) m = prototype cl m)"
proof (intro conjI impI)
  assume "shouldNotTraceServerCall w c name
      \<and> (type = ''unary'' \<or> type = ''client_stream'' \<or> type = ''server_stream'' \<or> type = ''bidi'')"
  then show "func name type res h c cb w
            = h c (if type = ''unary'' \<or> type = ''client_stream'' then cb else None) w"
    by (auto simp: func_def)
next
  assume "methodIsIgnored key (ignoreGrpcMethods (the_config wg))"
  then show "getMethodsToWrap cl (ms1 @ (key, on) # ms2) wg = getMethodsToWrap cl (ms1 @ ms2) wg"
    by (simp add: getMethodsToWrap_def)
next
  assume "original ms serviceName wg = (cl, wg1) \<and> m \<notin> set (getMethodsToWrap cl ms wg1)"
  then show "prototype (fst (makeClientConstructor original ms serviceName wg)) m = prototype cl m"
    by (simp add: makeClientConstructor_def massWrap_count count_list_0_iff option.map_id)
qed

theorem ignored_methods_pass_through_witness:
  "shouldNotTraceServerCall (new_instrumentation (ignoring [''Method'']))
        \<lparr>call_id = 0, metadata = [], sendMetadata = None\<rparr> ''/pkg.Service/Method''
   \<and> func ''/pkg.Service/Method'' ''unary'' (VBool True) (logging_handler 3 (VNum 1))
        \<lparr>call_id = 0, metadata = [], sendMetadata = None\<rparr> (Some (logging_callback 7))
        (new_instrumentation (ignoring [''Method'']))
      = (VNum 1, (new_instrumentation (ignoring [''Method'']))\<lparr>events := [Invoked 3]\<rparr>)
   \<and> methodIsIgnored ''ignoredMethod''
        (ignoreGrpcMethods (the_config (new_instrumentation (ignoring [''ignoredMethod'']))))
   \<and> getMethodsToWrap
        \<lparr>prototype = map_of
            [(''unaryMethod'', logging_method 2 ''/Svc/unaryMethod'' Undefined),
             (''ignoredMethod'', logging_method 2 ''/Svc/ignoredMethod'' Undefined)]\<rparr>
        [(''unaryMethod'', None), (''ignoredMethod'', Some ''IgnoredMethod'')]
        (new_instrumentation (ignoring [''ignoredMethod'']))
      = [''unaryMethod'']
   \<and> prototype (fst (makeClientConstructor (library_factory 1 2)
          [(''unaryMethod'', None), (''ignoredMethod'', Some ''IgnoredMethod'')] ''Svc''
          (new_instrumentation (ignoring [''ignoredMethod''])))) ''ignoredMethod''
      = Some (logging_method 2 ''/Svc/ignoredMethod'' Undefined)"
proof -
  let ?wg = "new_instrumentation (ignoring [''ignoredMethod''])"
  let ?ms = "[(''unaryMethod'', None), (''ignoredMethod'', Some ''IgnoredMethod'')]"
  let ?cl = "\<lparr>prototype = map_of
            [(''unaryMethod'', logging_method 2 ''/Svc/unaryMethod'' Undefined),
             (''ignoredMethod'', logging_method 2 ''/Svc/ignoredMethod'' Undefined)]\<rparr>"
  note t = ignored_methods_pass_through [where w = "new_instrumentation (ignoring [''Method''])"
      and c = "\<lparr>call_id = 0, metadata = [], sendMetadata = None\<rparr>"
      and name = "''/pkg.Service/Method''" and type = "''unary''" and res = "VBool True"
      and h = "logging_handler 3 (VNum 1)" and cb = "Some (logging_callback 7)"
      and key = "''ignoredMethod''" and wg = ?wg and cl = ?cl and ?ms1.0 = "[(''unaryMethod'', None)]"
      and on = "Some ''IgnoredMethod''" and ?ms2.0 = "[]" and original = "library_factory 1 2"
      and ms = ?ms and serviceName = "''Svc''" and ?wg1.0 = "emit (Invoked 1) ?wg"
      and m = "''ignoredMethod''"]
  have h3: "library_factory 1 2 ?ms ''Svc'' ?wg = (?cl, emit (Invoked 1) ?wg)
      \<and> ''ignoredMethod'' \<notin> set (getMethodsToWrap ?cl ?ms (emit (Invoked 1) ?wg))"
    by (simp add: library_factory_def getMethodsToWrap_def run_defs ignoring_def)
  show ?thesis
    using t [THEN conjunct1] t [THEN conjunct2, THEN conjunct1]
      t [THEN conjunct2, THEN conjunct2, THEN mp, OF h3]
    by (simp add: run_defs ignoring_def getMethodsToWrap_def)
qed

subsection \<open>The wrapped client methods are fixed at generation\<close>

text \<open>
  C10. The patched constructor factory wraps the method \<open>m\<close> as many times as it occurs
  in the list that \<^verbatim>\<open>_getMethodsToWrap\<close> builds under the configuration current at
  generation (for a table with the single entry \<open>m\<close>: once if \<open>m\<close> is not ignored then,
  never otherwise). Each wrapper starts one span at every invocation without consulting
  the ignore list, so under any later configuration the number of spans per invocation
  is the same.
\<close>

theorem wrapped_methods_fixed_at_generation:
  "original ms serviceName w = (cl, w1) \<and> prototype cl m = Some o'
   \<and> (\<forall>args this w'. spans_started (events (snd (cf_call o' args this w')))
          = spans_started (events w') + j)
   \<longrightarrow>
   (let k = count_list (getMethodsToWrap cl ms w1) m;
        cl' = fst (makeClientConstructor original ms serviceName w)
    in prototype cl' m = Some ((getPatchedClientMethods ^^ k) o')
       \<and> (\<forall>cfg' args this w'.
             spans_started (events (snd (cf_call ((getPatchedClientMethods ^^ k) o') args this
                                           (setConfig cfg' w'))))
               = spans_started (events w') + j + k)
       \<and> (ms = [(m, None)] \<longrightarrow>
             k = (if methodIsIgnored m (ignoreGrpcMethods (the_config w1)) then 0 else 1)))"
proof (intro impI)
  assume a: "original ms serviceName w = (cl, w1) \<and> prototype cl m = Some o'
   \<and> (\<forall>args this w'. spans_started (events (snd (cf_call o' args this w')))
          = spans_started (events w') + j)"
  then have q: "\<forall>args this w'. spans_started (events (snd (cf_call o' args this w')))
          = spans_started (events w') + j"
    by simp
  have p: "prototype (fst (makeClientConstructor original ms serviceName w)) m
      = Some ((getPatchedClientMethods ^^ count_list (getMethodsToWrap cl ms w1) m) o')"
    using a by (simp add: makeClientConstructor_def massWrap_count)
  show "let k = count_list (getMethodsToWrap cl ms w1) m;
        cl' = fst (makeClientConstructor original ms serviceName w)
    in prototype cl' m = Some ((getPatchedClientMethods ^^ k) o')
       \<and> (\<forall>cfg' args this w'.
             spans_started (events (snd (cf_call ((getPatchedClientMethods ^^ k) o') args this
                                           (setConfig cfg' w'))))
               = spans_started (events w') + j + k)
       \<and> (ms = [(m, None)] \<longrightarrow>
             k = (if methodIsIgnored m (ignoreGrpcMethods (the_config w1)) then 0 else 1))"
    unfolding Let_def
    by (intro conjI allI impI) (simp_all add: p layers_spans [OF q] getMethodsToWrap_single)
qed


theorem wrapped_methods_fixed_at_generation_witness:
  "library_factory 1 2 [(''unaryMethod'', None), (''ignoredMethod'', None)] ''Svc''
      (new_instrumentation (ignoring [''ignoredMethod'']))
     = (\<lparr>prototype = map_of
            [(''unaryMethod'', logging_method 2 ''/Svc/unaryMethod'' Undefined),
             (''ignoredMethod'', logging_method 2 ''/Svc/ignoredMethod'' Undefined)]\<rparr>,
        emit (Invoked 1) (new_instrumentation (ignoring [''ignoredMethod''])))
   \<and> (\<forall>args this w'.
         spans_started (events (snd (cf_call (logging_method 2 ''/Svc/unaryMethod'' Undefined) args this w')))
           = spans_started (events w') + 0)
   \<and> methodIsIgnored ''unaryMethod'' (ignoreGrpcMethods (ignoring [''unaryMethod'']))
   \<and> prototype (fst (makeClientConstructor (library_factory 1 2)
          [(''unaryMethod'', None), (''ignoredMethod'', None)] ''Svc''
          (new_instrumentation (ignoring [''ignoredMethod'']))))  ''unaryMethod''
       = Some (getPatchedClientMethods (logging_method 2 ''/Svc/unaryMethod'' Undefined))
   \<and> events (snd (cf_call (getPatchedClientMethods (logging_method 2 ''/Svc/unaryMethod'' Undefined))
        \<lparr>arg_request = VStr ''req'', arg_metadata = None, arg_callback = None\<rparr>
        \<lparr>channel_target = ''dns:localhost:50051''\<rparr>
        (setConfig (ignoring [''unaryMethod''])
           (emit (Invoked 1) (new_instrumentation (ignoring [''ignoredMethod'']))))))
     = [Invoked 1, StartSpan ''grpc.Svc/unaryMethod'' CLIENT,
        SetAttributes 0 [(''rpc.system'', AStr ''grpc''), (''rpc.method'', AStr ''unaryMethod''),
                         (''rpc.service'', AStr ''Svc'')],
        SetAttribute 0 ''net.peer.name'' (AStr ''localhost''),
        SetAttribute 0 ''net.peer.port'' (ANum 50051),
        Invoked 2]"
proof -
  let ?gen = "new_instrumentation (ignoring [''ignoredMethod''])"
  let ?ms = "[(''unaryMethod'', None), (''ignoredMethod'', None)]"
  let ?cl = "\<lparr>prototype = map_of
            [(''unaryMethod'', logging_method 2 ''/Svc/unaryMethod'' Undefined),
             (''ignoredMethod'', logging_method 2 ''/Svc/ignoredMethod'' Undefined)]\<rparr>"
  have hyp: "library_factory 1 2 ?ms ''Svc'' ?gen = (?cl, emit (Invoked 1) ?gen)
      \<and> prototype ?cl ''unaryMethod'' = Some (logging_method 2 ''/Svc/unaryMethod'' Undefined)
      \<and> (\<forall>args this w'.
         spans_started (events (snd (cf_call (logging_method 2 ''/Svc/unaryMethod'' Undefined) args this w')))
           = spans_started (events w') + 0)"
    by (simp add: library_factory_def logging_method_def emit_def)
  have k: "count_list (getMethodsToWrap ?cl ?ms (emit (Invoked 1) ?gen)) ''unaryMethod'' = 1"
    by (simp add: getMethodsToWrap_def methodIsIgnored_def new_instrumentation_def
          ignoring_def emit_def)
  note t = wrapped_methods_fixed_at_generation [of "library_factory 1 2" ?ms "''Svc''" ?gen ?cl
      "emit (Invoked 1) ?gen" "''unaryMethod''" "logging_method 2 ''/Svc/unaryMethod'' Undefined" 0,
      THEN mp, OF hyp, unfolded Let_def k]
  have run: "events (snd (cf_call (getPatchedClientMethods (logging_method 2 ''/Svc/unaryMethod'' Undefined))
        \<lparr>arg_request = VStr ''req'', arg_metadata = None, arg_callback = None\<rparr>
        \<lparr>channel_target = ''dns:localhost:50051''\<rparr>
        (setConfig (ignoring [''unaryMethod''])
           (emit (Invoked 1) (new_instrumentation (ignoring [''ignoredMethod'']))))))
     = [Invoked 1, StartSpan ''grpc.Svc/unaryMethod'' CLIENT,
        SetAttributes 0 [(''rpc.system'', AStr ''grpc''), (''rpc.method'', AStr ''unaryMethod''),
                         (''rpc.service'', AStr ''Svc'')],
        SetAttribute 0 ''net.peer.name'' (AStr ''localhost''),
        SetAttribute 0 ''net.peer.port'' (ANum 50051),
        Invoked 2]"
    by (simp add: getPatchedClientMethods_def clientMethodTrace_run)
       (simp add: run_defs setConfig_def ignoring_def getMetadata_def
          URI_REGEX_exec_def digit_val_def parseInt_def)
  show ?thesis
    using hyp t [THEN conjunct1] run
    by (simp add: methodIsIgnored_def ignoring_def)
qed


subsection \<open>Applying the patch repeatedly\<close>





subsection \<open>Removing the patch\<close>

text \<open>
  C2 asks that after the unload callbacks every wrapped target is unwrapped. The unload
  callback of the module unwraps \<^verbatim>\<open>Server.prototype.register\<close> only: after patch and
  unpatch \<^verbatim>\<open>makeGenericClientConstructor\<close> is still the tracing wrapper, while the
  callback of the internal file does restore \<^verbatim>\<open>makeClientConstructor\<close>.
\<close>

theorem unpatch_leaves_factory_wrapped:
  "(case unpatch (Some (patch (fresh_modules r g i u))) of
      None \<Rightarrow> False
    | Some m \<Rightarrow>
        slots m Server_prototype_register = Some (Plain (RegisterFn r))
        \<and> isWrapped (slots m Exports_makeGenericClientConstructor)
        \<and> map_option run_factory (slots m Exports_makeGenericClientConstructor)
            = Some (makeClientConstructor g))
   \<and> (case onUnPatch (Some (onPatch (fresh_modules r g i u))) of
        None \<Rightarrow> False
      | Some m \<Rightarrow> slots m Internal_makeClientConstructor = Some (Plain (FactoryFn i)))"
  by (simp add: patch_fresh onPatch_fresh unpatch_def onUnPatch_def unwrap_def run_factory_def)


end
